theory Spec2Isabelle
  imports Complex_Main
begin

section \<open>Exceptions and printed output\<close>

text \<open>
  The Python exceptions the two source files raise, each carrying its message (the empty
  string for a bare \<^verbatim>\<open>raise ValueError\<close>). A function that may raise returns
  \<open>error + 'a\<close> with \<open>Inl\<close> for the exception; a function that prints returns the
  printed lines next to its result.
\<close>

datatype error =
    ValueError string
  | NotImplementedError
  | AssertionError
  | UnboundLocalError string
  | TypeError string
  | Exception string

section \<open>transform\_replays.py: flags\<close>

text \<open>
  The absl flags of \<^verbatim>\<open>transform_replays.py\<close> (lines 22 to 31). A string flag whose
  default is \<^verbatim>\<open>None\<close> is a \<open>string option\<close>; the float flag \<^verbatim>\<open>discount\<close> is only
  ever passed on, never computed with, and is a \<open>real\<close>.
\<close>

record flags =
  sc2_path :: string
  replay_file :: "string option"
  replay_dir :: "string option"
  agent :: string
  screen_size :: int
  minimap_size :: int
  step_mul :: int
  min_game_length :: int
  discount :: real

definition default_flags :: flags where
  "default_flags =
     \<lparr>sc2_path = ''C:/Program Files (x86)/StarCraft II/'',
      replay_file = None,
      replay_dir = None,
      agent = ''replay_agent.ReplayAgent'',
      screen_size = 64,
      minimap_size = 64,
      step_mul = 4,
      min_game_length = 3000,
      discount = 1\<rparr>"

text \<open>
  \<^verbatim>\<open>check_flags\<close> (lines 34 to 47): the printed lines and either the exception raised or
  the normal return.
\<close>

definition check_flags :: "flags \<Rightarrow> string list \<times> (error + unit)" where
  "check_flags FLAGS =
     (if replay_file FLAGS \<noteq> None \<and> replay_dir FLAGS \<noteq> None
      then ([], Inl (ValueError ''Only one of 'replay_file' and 'replay_dir' must be specified.''))
      else
        (case (if replay_file FLAGS \<noteq> None then Inr [''Parsing a single replay.'']
               else (case replay_dir FLAGS of
                       Some d \<Rightarrow> Inr [''Parsing replays in '' @ d]
                     | None \<Rightarrow> Inl (ValueError ''Both 'replay_file' and 'replay_dir' not specified.'')))
         of
           Inl e \<Rightarrow> ([], Inl e)
         | Inr out \<Rightarrow>
             (if screen_size FLAGS \<noteq> minimap_size FLAGS
              then (out, Inl (ValueError ''Only supports equal values for 'screen_size' and 'minimap_size'.''))
              else (out, Inr ()))))"

section \<open>transform\_replays.py: the replay validity check\<close>

text \<open>
  The fields of the \<^verbatim>\<open>ResponseReplayInfo\<close> and \<^verbatim>\<open>ResponsePing\<close> protocol messages that
  the parser reads. \<open>has_error\<close> is \<^verbatim>\<open>info.HasField('error')\<close>; the unsigned 32-bit
  fields arrive in Python as unbounded integers.
\<close>

record player_info_extra =
  player_id :: int
  race_actual :: nat
  player_result_result :: nat
  player_apm :: int
  player_mmr :: int

record replay_info =
  has_error :: bool
  base_build :: int
  game_duration_loops :: int
  player_info :: "player_info_extra list"
  map_name :: string
  local_map_path :: string

record response_ping =
  ping_base_build :: int

text \<open>
  \<^verbatim>\<open>ReplayParser.check_valid_replay\<close> (lines 178 to 194), a static method that reads the
  global \<^verbatim>\<open>FLAGS.min_game_length\<close>: the line it prints, if any, and the boolean it returns.
\<close>

definition check_valid_replay :: "flags \<Rightarrow> replay_info \<Rightarrow> response_ping \<Rightarrow> string list \<times> bool" where
  "check_valid_replay FLAGS info ping =
     (if has_error info then ([''Has error...''], False)
      else if base_build info \<noteq> ping_base_build ping then ([''Different base build...''], True)
      else if game_duration_loops info < min_game_length FLAGS then ([''Game too short...''], False)
      else if length (player_info info) \<noteq> 2 then ([''Not a game with two players...''], False)
      else ([], True))"

text \<open>A replay of 10 game loops and no players, recorded on build 1, read by a client of build 2.\<close>

definition short_replay_other_build :: replay_info where
  "short_replay_other_build =
     \<lparr>has_error = False, base_build = 1, game_duration_loops = 10, player_info = [],
      map_name = ''Abyssal Reef LE'', local_map_path = ''''\<rparr>"

section \<open>custom\_features.py: the SpatialFeatures named tuple\<close>

text \<open>
  \<^verbatim>\<open>pysc2.lib.features.Feature\<close> is a named tuple of eight fields and
  \<^verbatim>\<open>FeatureType\<close> an enumeration of two values. The type of a palette (a colour table
  of the library) is left open as \<open>'p\<close>.
\<close>

datatype FeatureType = SCALAR | CATEGORICAL

record 'p Feature =
  index :: nat
  name :: string
  layer_set :: string
  full_name :: string
  scale :: int
  type :: FeatureType
  palette :: 'p
  clip :: bool

text \<open>
  The third component of a keyword's value is either a callable, which
  \<^verbatim>\<open>__new__\<close> applies to the scale, or a palette, which it takes as it is.
\<close>

datatype 'p palette_arg = Callable "int \<Rightarrow> 'p" | Palette 'p

type_synonym 'p kwargs = "(string \<times> int \<times> FeatureType \<times> 'p palette_arg) list"

text \<open>\<^verbatim>\<open>SpatialFeatures._fields\<close> (lines 20 to 22).\<close>

definition SpatialFeatures_fields :: "string list" where
  "SpatialFeatures_fields =
     [''height_map'', ''visibility_map'', ''creep'', ''camera'',
      ''player_id'', ''player_relative'', ''selected'', ''unit_type'']"

text \<open>\<^verbatim>\<open>tuple.index\<close>: the first position of a value, a \<^verbatim>\<open>ValueError\<close> when it is absent.\<close>

fun tuple_index :: "'a list \<Rightarrow> 'a \<Rightarrow> error + nat" where
  "tuple_index [] v = Inl (ValueError ''tuple.index(x): x not in tuple'')"
| "tuple_index (u # us) v =
     (if u = v then Inr 0
      else (case tuple_index us v of Inl e \<Rightarrow> Inl e | Inr i \<Rightarrow> Inr (Suc i)))"

text \<open>
  The loop of \<^verbatim>\<open>SpatialFeatures.__new__\<close> (lines 30 to 41) over the keywords in their
  order, filling the dictionary \<^verbatim>\<open>feats\<close>.
\<close>

fun make_feats :: "'p kwargs \<Rightarrow> (string \<rightharpoonup> 'p Feature) \<Rightarrow> error + (string \<rightharpoonup> 'p Feature)" where
  "make_feats [] feats = Inr feats"
| "make_feats ((name', scale', type', palette') # kwargs) feats =
     (case tuple_index SpatialFeatures_fields name' of
        Inl e \<Rightarrow> Inl e
      | Inr i \<Rightarrow>
          make_feats kwargs
            (feats(name' \<mapsto>
               \<lparr>index = i,
                name = name',
                layer_set = ''minimap_renders'',
                full_name = ''spatial '' @ name',
                scale = scale',
                type = type',
                palette = (case palette' of Callable f \<Rightarrow> f scale' | Palette p \<Rightarrow> p),
                clip = False\<rparr>)))"

text \<open>
  The \<^verbatim>\<open>__new__\<close> of a \<^verbatim>\<open>collections.namedtuple\<close> called with keywords only: every
  field must be given (a \<^verbatim>\<open>TypeError\<close> otherwise), and the tuple holds the values in the
  order of the fields.
\<close>

fun namedtuple_new :: "string list \<Rightarrow> (string \<rightharpoonup> 'a) \<Rightarrow> error + 'a list" where
  "namedtuple_new [] feats = Inr []"
| "namedtuple_new (f # fs) feats =
     (case feats f of
        None \<Rightarrow> Inl (TypeError (''__new__() missing required argument: '' @ f))
      | Some v \<Rightarrow> (case namedtuple_new fs feats of Inl e \<Rightarrow> Inl e | Inr vs \<Rightarrow> Inr (v # vs)))"

text \<open>\<^verbatim>\<open>SpatialFeatures.__new__\<close> (lines 29 to 43).\<close>

definition SpatialFeatures_new :: "'p kwargs \<Rightarrow> error + 'p Feature list" where
  "SpatialFeatures_new kwargs =
     (case make_feats kwargs Map.empty of
        Inl e \<Rightarrow> Inl e
      | Inr feats \<Rightarrow> namedtuple_new SpatialFeatures_fields feats)"

text \<open>
  The palettes of \<^verbatim>\<open>pysc2.lib.colors\<close> that the module-level constant uses:
  \<^verbatim>\<open>winter\<close> and \<^verbatim>\<open>unit_type\<close> are functions of the scale, the others are tables.
\<close>

record 'p colors =
  winter :: "int \<Rightarrow> 'p"
  unit_type :: "int \<Rightarrow> 'p"
  VISIBILITY_PALETTE :: 'p
  CREEP_PALETTE :: 'p
  CAMERA_PALETTE :: 'p
  PLAYER_ABSOLUTE_PALETTE :: 'p
  PLAYER_RELATIVE_PALETTE :: 'p

text \<open>Python's \<^verbatim>\<open>max\<close> of a list: a \<^verbatim>\<open>ValueError\<close> on the empty list.\<close>

fun py_max :: "int list \<Rightarrow> error + int" where
  "py_max [] = Inl (ValueError ''max() arg is an empty sequence'')"
| "py_max (v # vs) = Inr (fold max vs v)"

text \<open>
  \<^verbatim>\<open>SPATIAL_FEATURES\<close> (lines 46 to 55), evaluated when the module is imported, from the
  library's colours and its list \<^verbatim>\<open>static_data.UNIT_TYPES\<close>.
\<close>

definition SPATIAL_FEATURES :: "'p colors \<Rightarrow> int list \<Rightarrow> error + 'p Feature list" where
  "SPATIAL_FEATURES colors UNIT_TYPES =
     (case py_max UNIT_TYPES of
        Inl e \<Rightarrow> Inl e
      | Inr m \<Rightarrow>
          SpatialFeatures_new
            [(''height_map'', 256, SCALAR, Callable (winter colors)),
             (''visibility_map'', 4, CATEGORICAL, Palette (VISIBILITY_PALETTE colors)),
             (''creep'', 2, CATEGORICAL, Palette (CREEP_PALETTE colors)),
             (''camera'', 2, CATEGORICAL, Palette (CAMERA_PALETTE colors)),
             (''player_id'', 17, CATEGORICAL, Palette (PLAYER_ABSOLUTE_PALETTE colors)),
             (''player_relative'', 5, CATEGORICAL, Palette (PLAYER_RELATIVE_PALETTE colors)),
             (''selected'', 2, CATEGORICAL, Callable (winter colors)),
             (''unit_type'', m + 1, CATEGORICAL, Callable (unit_type colors))])"

text \<open>
  Modelled from the spec: the field names of the library's
  \<^verbatim>\<open>pysc2.lib.features.MinimapFeatures\<close>, which is not among the repository's files. The
  spec says the repository's tuple "mirrors an existing library structure with one extra
  field", and the docstring of \<^verbatim>\<open>SpatialFeatures\<close> that it is "similar to
  pysc2.lib.features.MinimapFeatures, but with 'unit\_type'": the seven layers below.
\<close>

definition MinimapFeatures_fields :: "string list" where
  "MinimapFeatures_fields =
     [''height_map'', ''visibility_map'', ''creep'', ''camera'',
      ''player_id'', ''player_relative'', ''selected'']"

section \<open>custom\_features.py: the CustomFeatures class\<close>

text \<open>
  \<^verbatim>\<open>pysc2.lib.point.Point\<close>, \<^verbatim>\<open>features.Dimensions\<close> and
  \<^verbatim>\<open>features.AgentInterfaceFormat\<close>, with the attributes the source reads. An attribute
  that holds either a \<^verbatim>\<open>Dimensions\<close> object or \<^verbatim>\<open>None\<close> is an option; the object
  defines neither \<^verbatim>\<open>__bool__\<close> nor \<^verbatim>\<open>__len__\<close>, so it is true in a condition exactly
  when it is not \<^verbatim>\<open>None\<close>.
\<close>

record point =
  pt_x :: int
  pt_y :: int

record dimensions =
  screen :: point
  minimap :: point

record agent_interface_format =
  feature_dimensions :: "dimensions option"
  rgb_dimensions :: "dimensions option"
  use_feature_units :: bool
  use_raw_units :: bool
  use_unit_counts :: bool
  use_camera_position :: bool
  camera_width_world_units :: real
  action_space :: "nat option"
  hide_specific_actions :: bool

text \<open>
  A \<^verbatim>\<open>CustomFeatures\<close> object, as far as this file reads it: the attribute
  \<^verbatim>\<open>_agent_interface_format\<close>, which the inherited constructor sets.
\<close>

record CustomFeatures =
  self_agent_interface_format :: agent_interface_format




text \<open>
  The values of the dictionary that \<^verbatim>\<open>transform_obs\<close> returns: \<^verbatim>\<open>None\<close>, a numpy array
  given by its shape and its entries, or a \<^verbatim>\<open>NamedNumpyArray\<close> around a stacked array
  (of the open type \<open>'arr\<close>) with its list of axis names.
\<close>

datatype 'arr obs_value =
    PyNone
  | NdArray "nat list" "int list"
  | NamedNumpyArray 'arr "string option list"

type_synonym layer = "int list list"

text \<open>
  What \<^verbatim>\<open>transform_obs\<close> takes from the library and from the module: the feature tuples,
  \<^verbatim>\<open>Feature.unpack\<close> (a layer, \<^verbatim>\<open>None\<close>, or an exception), \<^verbatim>\<open>np.stack\<close> (an array or an
  exception) and \<^verbatim>\<open>len(features.UnitLayer)\<close>. \<open>'o\<close> is the type of \<^verbatim>\<open>obs.observation\<close>.
\<close>

record ('p, 'o, 'arr) render_lib =
  SCREEN_FEATURES :: "'p Feature list"
  MINIMAP_FEATURES :: "'p Feature list"
  SPATIAL_FEATURES_value :: "'p Feature list"
  unpack :: "'p Feature \<Rightarrow> 'o \<Rightarrow> error + layer option"
  np_stack :: "layer list \<Rightarrow> error + 'arr"
  UnitLayer_len :: nat

text \<open>
  The local function \<^verbatim>\<open>or_zeros\<close> (lines 142 to 146); \<^verbatim>\<open>astype(np.int32, copy=False)\<close>
  leaves a layer of 32-bit values as it is.
\<close>

definition or_zeros :: "layer option \<Rightarrow> point \<Rightarrow> layer" where
  "or_zeros layer' size' =
     (case layer' of
        Some l \<Rightarrow> l
      | None \<Rightarrow> replicate (nat (pt_y size')) (replicate (nat (pt_x size')) 0))"

text \<open>
  The generator \<^verbatim>\<open>or_zeros(f.unpack(obs.observation), size) for f in FEATURES\<close>, consumed
  from left to right: the first exception of \<^verbatim>\<open>unpack\<close> ends it.
\<close>

fun unpack_layers ::
  "('p Feature \<Rightarrow> 'o \<Rightarrow> error + layer option) \<Rightarrow> 'p Feature list \<Rightarrow> point \<Rightarrow> 'o \<Rightarrow> error + layer list" where
  "unpack_layers unp [] size' ob = Inr []"
| "unpack_layers unp (f # fs) size' ob =
     (case unp f ob of
        Inl e \<Rightarrow> Inl e
      | Inr l \<Rightarrow>
          (case unpack_layers unp fs size' ob of
             Inl e \<Rightarrow> Inl e
           | Inr ls \<Rightarrow> Inr (or_zeros l size' # ls)))"

text \<open>One \<^verbatim>\<open>NamedNumpyArray(np.stack(...), names=[cls, None, None])\<close> of lines 151 to 162.\<close>

definition stacked ::
  "('p, 'o, 'arr) render_lib \<Rightarrow> 'p Feature list \<Rightarrow> point \<Rightarrow> 'o \<Rightarrow> string \<Rightarrow> error + 'arr obs_value" where
  "stacked lib feats size' ob cls =
     (case unpack_layers (unpack lib) feats size' ob of
        Inl e \<Rightarrow> Inl e
      | Inr ls \<Rightarrow>
          (case np_stack lib ls of
             Inl e \<Rightarrow> Inl e
           | Inr a \<Rightarrow> Inr (NamedNumpyArray a [Some cls, None, None])))"

text \<open>
  \<^verbatim>\<open>CustomFeatures.transform_obs\<close> (lines 128 to 184); the stopwatch decorator passes the
  call through. The reads of \<^verbatim>\<open>score_details\<close> and \<^verbatim>\<open>player_common\<close> and the local
  function \<^verbatim>\<open>get_score_details\<close>, which is never called, leave no trace in the result.
\<close>

definition transform_obs ::
  "('p, 'o, 'arr) render_lib \<Rightarrow> CustomFeatures \<Rightarrow> 'o \<Rightarrow> error + (string \<rightharpoonup> 'arr obs_value)" where
  "transform_obs lib self ob =
     (let empty = NdArray [0, UnitLayer_len lib] [];
          out =
            [''single_select'' \<mapsto> empty,
             ''multi_select'' \<mapsto> empty,
             ''build_queue'' \<mapsto> empty,
             ''cargo'' \<mapsto> empty,
             ''cargo_slots_available'' \<mapsto> NdArray [1] [0]];
          aif = self_agent_interface_format self
      in case (case feature_dimensions aif of
                 None \<Rightarrow> Inr out
               | Some fd \<Rightarrow>
                   (case stacked lib (SCREEN_FEATURES lib) (screen fd) ob ''ScreenFeatures'' of
                      Inl e \<Rightarrow> Inl e
                    | Inr a1 \<Rightarrow>
                   (case stacked lib (MINIMAP_FEATURES lib) (minimap fd) ob ''MinimapFeatures'' of
                      Inl e \<Rightarrow> Inl e
                    | Inr a2 \<Rightarrow>
                   (case stacked lib (SPATIAL_FEATURES_value lib) (minimap fd) ob ''SpatialFeatures'' of
                      Inl e \<Rightarrow> Inl e
                    | Inr a3 \<Rightarrow>
                        Inr (out(''feature_screen'' \<mapsto> a1,
                                 ''feature_minimap'' \<mapsto> a2,
                                 ''feature_spatial'' \<mapsto> a3))))))
         of
           Inl e \<Rightarrow> Inl e
         | Inr out1 \<Rightarrow>
             (if rgb_dimensions aif \<noteq> None then Inl NotImplementedError
              else
                Inr (out1(''last_actions'' \<mapsto> PyNone,
                          ''action_result'' \<mapsto> PyNone,
                          ''alerts'' \<mapsto> PyNone,
                          ''game_loop'' \<mapsto> PyNone,
                          ''score_cumulative'' \<mapsto> PyNone,
                          ''score_by_category'' \<mapsto> PyNone,
                          ''score_by_vital'' \<mapsto> PyNone,
                          ''player'' \<mapsto> PyNone))))"

text \<open>
  The fields of the \<^verbatim>\<open>ResponseGameInfo\<close> message that
  \<^verbatim>\<open>custom_features_from_game_info\<close> reads. An unset sub-message reads as its default.
\<close>

record size2di =
  size_x :: int
  size_y :: int






section \<open>transform\_replays.py: the ReplayParser constructor\<close>

text \<open>
  The constructor tests the run-time type of its size arguments, so they are Python values:
  an integer, a boolean (an instance of \<^verbatim>\<open>int\<close> in Python), a tuple, or a value of
  another type.
\<close>

datatype pyval =
    PyInt int
  | PyBool bool
  | PyTuple "pyval list"
  | PyList "pyval list"
  | PyStr string
  | PyFloat real
  | PyNoneValue

text \<open>
  The \<^verbatim>\<open>if isinstance(size, tuple) ... elif isinstance(size, int) ... else raise ValueError\<close>
  of lines 66 to 71, and again of lines 74 to 79: the elements of the tuple that is stored.
\<close>

fun configure_size :: "pyval \<Rightarrow> error + pyval list" where
  "configure_size (PyTuple vs) = Inr vs"
| "configure_size (PyInt s) = Inr [PyInt s, PyInt s]"
| "configure_size (PyBool b) = Inr [PyBool b, PyBool b]"
| "configure_size _ = Inl (ValueError [])"

datatype StepType = FIRST | MID | LAST

record player_meta =
  race :: string
  result :: string
  apm :: int
  mmr :: int

text \<open>
  The attributes of a \<^verbatim>\<open>ReplayParser\<close>. The two sizes are \<^verbatim>\<open>point.Point\<close> values
  once the constructor is through, a named tuple of two elements that compares equal to
  the plain tuple of the same elements. The agent and the controller are not part of the
  record: their calls are recorded as events.
\<close>

record parser =
  self_discount :: real
  self_step_mul :: int
  self_player_id :: int
  self_screen_size :: "pyval \<times> pyval"
  self_minimap_size :: "pyval \<times> pyval"
  self_map_name :: string
  self_player_meta_info :: "int \<rightharpoonup> player_meta"
  self_episode_length :: int
  self_episode_steps :: int
  self_state :: StepType

text \<open>
  An observation as the controller returns it (\<^verbatim>\<open>ResponseObservation\<close>): the list
  \<^verbatim>\<open>player_result\<close>, empty until the game has ended, the actions, and the observation
  proper. \<^verbatim>\<open>environment.TimeStep\<close> is a named tuple of four fields.
\<close>

record ('a, 'o) response_observation =
  player_result :: "(int \<times> nat) list"
  actions :: "'a list"
  observation :: 'o

record 'ao TimeStep =
  step_type :: StepType
  reward :: int
  ts_discount :: real
  ts_observation :: 'ao

record request_start_replay =
  req_replay_path :: string
  req_map_path :: "string option"
  req_resolution :: size2di
  req_minimap_resolution :: size2di
  req_observed_player_id :: int
  req_disable_fog :: bool

text \<open>
  The calls that leave the program, in the order in which they are made: starting the
  game process, the requests to the controller, the library's \<^verbatim>\<open>transform_obs\<close>,
  \<^verbatim>\<open>print\<close>, and the agent's \<^verbatim>\<open>step\<close>.
\<close>

datatype ('a, 'o, 'ao) event =
    RunConfigStart
  | ReplayData string
  | CtlPing
  | CtlReplayInfo
  | MapData string
  | CtlStartReplay request_start_replay
  | CtlGameInfo
  | CtlStep int
  | CtlObserve
  | TransformObs "('a, 'o) response_observation"
  | Print string
  | AgentStep "'ao TimeStep" "'a list"

text \<open>
  What the game client and the library answer to the constructor: the ping, the replay's
  metadata, the names of the enumeration values, and \<^verbatim>\<open>Point.assign_to\<close>, which writes
  the two coordinates into an integer field of the request or raises.
\<close>

record sc2_env =
  env_ping :: response_ping
  env_replay_info :: "string \<Rightarrow> replay_info"
  Race_Name :: "nat \<Rightarrow> string"
  Result_Name :: "nat \<Rightarrow> string"
  assign_to :: "pyval \<times> pyval \<Rightarrow> error + size2di"

text \<open>The loop of lines 105 to 112 over \<^verbatim>\<open>info.player_info\<close>.\<close>

fun player_meta_info ::
  "sc2_env \<Rightarrow> player_info_extra list \<Rightarrow> (int \<rightharpoonup> player_meta) \<Rightarrow> (int \<rightharpoonup> player_meta)" where
  "player_meta_info env [] m = m"
| "player_meta_info env (player # players) m =
     player_meta_info env players
       (m(player_id player \<mapsto>
            \<lparr>race = Race_Name env (race_actual player),
             result = Result_Name env (player_result_result player),
             apm = player_apm player,
             mmr = player_mmr player\<rparr>))"

text \<open>
  \<^verbatim>\<open>ReplayParser.__init__\<close> (lines 56 to 143): the events up to the return or the
  exception, and the object or the exception. The assertions are taken as enabled.
\<close>

definition ReplayParser_init ::
  "flags \<Rightarrow> sc2_env \<Rightarrow> string \<Rightarrow> int \<Rightarrow> pyval \<Rightarrow> pyval \<Rightarrow> real \<Rightarrow> int \<Rightarrow>
   ('a, 'o, 'ao) event list \<times> (error + parser)" where
  "ReplayParser_init FLAGS env replay_file_path player_id' screen_size' minimap_size' discount' step_mul' =
     (case configure_size screen_size' of
        Inl e \<Rightarrow> ([], Inl e)
      | Inr ss \<Rightarrow>
     (case configure_size minimap_size' of
        Inl e \<Rightarrow> ([], Inl e)
      | Inr ms \<Rightarrow>
     (if length ss \<noteq> 2 then ([], Inl AssertionError)
      else if length ms \<noteq> 2 then ([], Inl AssertionError)
      else
        (let ev1 = [RunConfigStart, ReplayData replay_file_path, CtlPing, CtlReplayInfo];
             ping = env_ping env;
             info = env_replay_info env replay_file_path;
             valid = check_valid_replay FLAGS info ping;
             ev2 = ev1 @ map Print (fst valid)
         in if \<not> snd valid
            then (ev2, Inl (Exception (replay_file_path @ '' is not a valid replay file.'')))
            else
              (let screen_pt = (ss ! 0, ss ! 1);
                   minimap_pt = (ms ! 0, ms ! 1)
               in case assign_to env screen_pt of
                    Inl e \<Rightarrow> (ev2, Inl e)
                  | Inr res \<Rightarrow>
                 (case assign_to env minimap_pt of
                    Inl e \<Rightarrow> (ev2, Inl e)
                  | Inr mres \<Rightarrow>
                      (let map_data =
                             (if local_map_path info \<noteq> [] then Some (local_map_path info) else None);
                           ev3 = ev2 @ (case map_data of None \<Rightarrow> [] | Some pth \<Rightarrow> [MapData pth])
                       in (ev3 @
                           [CtlStartReplay
                              \<lparr>req_replay_path = replay_file_path,
                               req_map_path = map_data,
                               req_resolution = res,
                               req_minimap_resolution = mres,
                               req_observed_player_id = player_id',
                               req_disable_fog = True\<rparr>],
                           Inr \<lparr>self_discount = discount',
                                self_step_mul = step_mul',
                                self_player_id = player_id',
                                self_screen_size = screen_pt,
                                self_minimap_size = minimap_pt,
                                self_map_name = map_name info,
                                self_player_meta_info = player_meta_info env (player_info info) Map.empty,
                                self_episode_length = game_duration_loops info,
                                self_episode_steps = 0,
                                self_state = FIRST\<rparr>))))))))"

section \<open>transform\_replays.py: the loop of ReplayParser.start\<close>

text \<open>
  The controller is a state machine of an open state type \<open>'c\<close>: \<^verbatim>\<open>step\<close> advances the
  game by a number of loops, \<^verbatim>\<open>observe\<close> answers with an observation. The library's
  \<^verbatim>\<open>transform_obs\<close> either raises or returns the agent's observation; the calls of the
  controller and of the agent are taken to return.
\<close>

record ('c, 'a, 'o) controller =
  ctl_step :: "int \<Rightarrow> 'c \<Rightarrow> 'c"
  ctl_observe :: "'c \<Rightarrow> ('a, 'o) response_observation \<times> 'c"

text \<open>
  The state that \<^verbatim>\<open>start\<close> works on: the object, the controller, the local variable
  \<^verbatim>\<open>agent_obs\<close> (\<open>None\<close> while it is unbound) and the events so far.
\<close>

record ('c, 'a, 'o, 'ao) run =
  run_self :: parser
  run_ctl :: 'c
  agent_obs :: "'ao option"
  run_events :: "('a, 'o, 'ao) event list"

datatype control = Continue | Break | Raise error

fun str :: "error \<Rightarrow> string" where
  "str (ValueError m) = m"
| "str NotImplementedError = []"
| "str AssertionError = []"
| "str (UnboundLocalError m) = m"
| "str (TypeError m) = m"
| "str (Exception m) = m"

text \<open>
  One pass through the body of \<^verbatim>\<open>while True\<close> (lines 151 to 176): how the pass ends
  (the loop goes on, \<^verbatim>\<open>break\<close>, or an exception leaves \<^verbatim>\<open>start\<close>) and the state then.
  Reading \<^verbatim>\<open>agent_obs\<close> at line 169 while no \<^verbatim>\<open>transform_obs\<close> has returned yet
  raises \<^verbatim>\<open>UnboundLocalError\<close>.
\<close>

definition loop_body ::
  "('c, 'a, 'o) controller \<Rightarrow> (('a, 'o) response_observation \<Rightarrow> error + 'ao) \<Rightarrow>
   ('c, 'a, 'o, 'ao) run \<Rightarrow> control \<times> ('c, 'a, 'o, 'ao) run" where
  "loop_body ctl features_transform_obs r =
     (let self = run_self r;
          c1 = ctl_step ctl (self_step_mul self) (run_ctl r);
          obs = fst (ctl_observe ctl c1);
          c2 = snd (ctl_observe ctl c1);
          ev1 = run_events r @ [CtlStep (self_step_mul self), CtlObserve, TransformObs obs];
          agent_obs1 =
            (case features_transform_obs obs of Inr a \<Rightarrow> Some a | Inl e \<Rightarrow> agent_obs r);
          ev2 =
            (case features_transform_obs obs of
               Inr a \<Rightarrow> ev1
             | Inl e \<Rightarrow> ev1 @ [Print (str e @ '' passing...'')]);
          state1 = (if player_result obs \<noteq> [] then LAST else self_state self);
          discount1 = (if player_result obs \<noteq> [] then 0 else self_discount self);
          self1 = self\<lparr>self_state := state1,
                       self_episode_steps := self_episode_steps self + self_step_mul self\<rparr>
      in case agent_obs1 of
           None \<Rightarrow>
             (Raise (UnboundLocalError ''local variable 'agent_obs' referenced before assignment''),
              \<lparr>run_self = self1, run_ctl = c2, agent_obs = None, run_events = ev2\<rparr>)
         | Some a \<Rightarrow>
             (let step = \<lparr>step_type = state1, reward = 0, ts_discount = discount1,
                          ts_observation = a\<rparr>;
                  ev3 = ev2 @ [AgentStep step (actions obs)]
              in if player_result obs \<noteq> []
                 then (Break,
                       \<lparr>run_self = self1, run_ctl = c2, agent_obs = Some a, run_events = ev3\<rparr>)
                 else (Continue,
                       \<lparr>run_self = self1\<lparr>self_state := MID\<rparr>, run_ctl = c2,
                        agent_obs = Some a, run_events = ev3\<rparr>)))"

text \<open>
  The loop: \<open>None\<close> when it runs forever, otherwise the exception that left it (if any)
  and the final state.
\<close>

partial_function (option) start_loop ::
  "('c, 'a, 'o) controller \<Rightarrow> (('a, 'o) response_observation \<Rightarrow> error + 'ao) \<Rightarrow>
   ('c, 'a, 'o, 'ao) run \<Rightarrow> (error option \<times> ('c, 'a, 'o, 'ao) run) option" where
  "start_loop ctl features_transform_obs r =
     (case loop_body ctl features_transform_obs r of
        (Continue, r') \<Rightarrow> start_loop ctl features_transform_obs r'
      | (Break, r') \<Rightarrow> Some (None, r')
      | (Raise e, r') \<Rightarrow> Some (Some e, r'))"

text \<open>
  \<^verbatim>\<open>ReplayParser.start\<close> (lines 145 to 176), on an object and the controller's state:
  the library builds the features from the game info (taken to return; its
  \<^verbatim>\<open>transform_obs\<close> is the parameter), then the loop runs.
\<close>

definition start ::
  "('c, 'a, 'o) controller \<Rightarrow> (('a, 'o) response_observation \<Rightarrow> error + 'ao) \<Rightarrow>
   parser \<Rightarrow> 'c \<Rightarrow> (error option \<times> ('c, 'a, 'o, 'ao) run) option" where
  "start ctl features_transform_obs self c =
     start_loop ctl features_transform_obs
       \<lparr>run_self = self, run_ctl = c, agent_obs = None, run_events = [CtlGameInfo]\<rparr>"

section \<open>transform\_replays.py: the replay files of main\<close>




section \<open>Notions for stating the results\<close>

text \<open>The two \<^verbatim>\<open>isinstance\<close> tests of the constructor, as predicates on a Python value.\<close>

fun isinstance_tuple :: "pyval \<Rightarrow> bool" where
  "isinstance_tuple (PyTuple _) = True"
| "isinstance_tuple _ = False"

fun isinstance_int :: "pyval \<Rightarrow> bool" where
  "isinstance_int (PyInt _) = True"
| "isinstance_int (PyBool _) = True"
| "isinstance_int _ = False"

text \<open>
  The controller's state at the start of pass \<open>k\<close> of the loop (passes are counted from 0)
  when every pass steps by \<open>m\<close>, and the observation that pass \<open>k\<close> receives.
\<close>

fun ctl_at :: "('c, 'a, 'o) controller \<Rightarrow> int \<Rightarrow> 'c \<Rightarrow> nat \<Rightarrow> 'c" where
  "ctl_at ctl m c 0 = c"
| "ctl_at ctl m c (Suc k) = snd (ctl_observe ctl (ctl_step ctl m (ctl_at ctl m c k)))"

definition obs_at ::
  "('c, 'a, 'o) controller \<Rightarrow> int \<Rightarrow> 'c \<Rightarrow> nat \<Rightarrow> ('a, 'o) response_observation" where
  "obs_at ctl m c k = fst (ctl_observe ctl (ctl_step ctl m (ctl_at ctl m c k)))"

text \<open>
  The agent's observation that pass \<open>k\<close> hands on when the first call of
  \<^verbatim>\<open>transform_obs\<close> returned \<open>a0\<close>: the result of the latest call that returned, among
  the calls of the passes 0 to \<open>k\<close>.
\<close>

fun stale_obs ::
  "(('a, 'o) response_observation \<Rightarrow> error + 'ao) \<Rightarrow> (nat \<Rightarrow> ('a, 'o) response_observation) \<Rightarrow>
   'ao \<Rightarrow> nat \<Rightarrow> 'ao" where
  "stale_obs tr obs a0 0 = (case tr (obs 0) of Inr a \<Rightarrow> a | Inl e \<Rightarrow> a0)"
| "stale_obs tr obs a0 (Suc k) =
     (case tr (obs (Suc k)) of Inr a \<Rightarrow> a | Inl e \<Rightarrow> stale_obs tr obs a0 k)"

text \<open>
  The events of one complete pass, in their order: the controller's step and observe, the
  call of \<^verbatim>\<open>transform_obs\<close> (and the printed line when it raised), and the agent's step
  with a time step of the given step type and discount.
\<close>

definition iteration_events ::
  "(('a, 'o) response_observation \<Rightarrow> error + 'ao) \<Rightarrow> (nat \<Rightarrow> ('a, 'o) response_observation) \<Rightarrow>
   'ao \<Rightarrow> int \<Rightarrow> StepType \<Rightarrow> real \<Rightarrow> nat \<Rightarrow> ('a, 'o, 'ao) event list" where
  "iteration_events tr obs a0 m st disc k =
     [CtlStep m, CtlObserve, TransformObs (obs k)]
     @ (case tr (obs k) of Inl e \<Rightarrow> [Print (str e @ '' passing...'')] | Inr a \<Rightarrow> [])
     @ [AgentStep \<lparr>step_type = st, reward = 0, ts_discount = disc,
                   ts_observation = stale_obs tr obs a0 k\<rparr> (actions (obs k))]"

text \<open>The state after \<open>j\<close> passes through the body of the loop.\<close>

fun passes ::
  "('c, 'a, 'o) controller \<Rightarrow> (('a, 'o) response_observation \<Rightarrow> error + 'ao) \<Rightarrow> nat \<Rightarrow>
   ('c, 'a, 'o, 'ao) run \<Rightarrow> ('c, 'a, 'o, 'ao) run" where
  "passes ctl tr 0 r = r"
| "passes ctl tr (Suc j) r = snd (loop_body ctl tr (passes ctl tr j r))"

section \<open>Concrete inputs\<close>

text \<open>A parser as the constructor leaves it, with the flags' step multiplier and discount.\<close>

definition example_parser :: parser where
  "example_parser =
     \<lparr>self_discount = 1,
      self_step_mul = 4,
      self_player_id = 1,
      self_screen_size = (PyInt 64, PyInt 64),
      self_minimap_size = (PyInt 64, PyInt 64),
      self_map_name = ''Abyssal Reef LE'',
      self_player_meta_info = Map.empty,
      self_episode_length = 5000,
      self_episode_steps = 0,
      self_state = FIRST\<rparr>"

text \<open>
  A controller whose state is the number of game loops played; the game ends once
  \<open>n\<close> loops are reached. Its observation carries the loop count.
\<close>

definition counting_controller :: "int \<Rightarrow> (int, nat, int) controller" where
  "counting_controller n =
     \<lparr>ctl_step = (\<lambda>m c. c + m),
      ctl_observe =
        (\<lambda>c. (\<lparr>player_result = (if n \<le> c then [(1, 1), (2, 2)] else []),
                 actions = [],
                 observation = c\<rparr>, c))\<rparr>"

text \<open>A \<^verbatim>\<open>transform_obs\<close> that always raises, and one that raises from loop 8 on.\<close>

definition failing_transform :: "(nat, int) response_observation \<Rightarrow> error + int" where
  "failing_transform ob = Inl (Exception ''no feature layers'')"

definition late_failing_transform :: "(nat, int) response_observation \<Rightarrow> error + int" where
  "late_failing_transform ob =
     (if observation ob < 8 then Inr (observation ob) else Inl (Exception ''no feature layers''))"

text \<open>An agent interface format that asks for RGB rendering, and one that does not.\<close>

definition dims64 :: dimensions where
  "dims64 = \<lparr>screen = \<lparr>pt_x = 64, pt_y = 64\<rparr>, minimap = \<lparr>pt_x = 64, pt_y = 64\<rparr>\<rparr>"


definition feature_format :: agent_interface_format where
  "feature_format =
     \<lparr>feature_dimensions = Some dims64, rgb_dimensions = None,
      use_feature_units = False, use_raw_units = False, use_unit_counts = False,
      use_camera_position = False, camera_width_world_units = 24,
      action_space = None, hide_specific_actions = True\<rparr>"





definition example_render_lib :: "(unit, unit, layer list) render_lib" where
  "example_render_lib =
     \<lparr>SCREEN_FEATURES =
        [\<lparr>index = 0, name = ''height_map'', layer_set = ''renders'',
          full_name = ''screen height_map'', scale = 256, type = SCALAR, palette = (),
          clip = False\<rparr>],
      MINIMAP_FEATURES = [],
      SPATIAL_FEATURES_value = [],
      unpack = (\<lambda>f ob. Inr None),
      np_stack = (\<lambda>ls. Inr ls),
      UnitLayer_len = 7\<rparr>"

text \<open>Keywords for all eight fields, with palettes that are lists of numbers.\<close>

definition example_kwargs :: "int list kwargs" where
  "example_kwargs =
     [(''unit_type'', 2000, CATEGORICAL, Callable (\<lambda>s. [s, s])),
      (''height_map'', 256, SCALAR, Callable (\<lambda>s. [s])),
      (''visibility_map'', 4, CATEGORICAL, Palette [0, 1, 2, 3]),
      (''creep'', 2, CATEGORICAL, Palette [0, 1]),
      (''camera'', 2, CATEGORICAL, Palette [0, 1]),
      (''player_id'', 17, CATEGORICAL, Palette [0]),
      (''player_relative'', 5, CATEGORICAL, Palette [0, 1, 2, 3, 4]),
      (''selected'', 2, CATEGORICAL, Callable (\<lambda>s. [s]))]"

text \<open>A game client of build 75689 and a replay of that build, long enough, of two players.\<close>

definition example_env :: sc2_env where
  "example_env =
     \<lparr>env_ping = \<lparr>ping_base_build = 75689\<rparr>,
      env_replay_info =
        (\<lambda>pth. \<lparr>has_error = False, base_build = 75689, game_duration_loops = 5000,
                 player_info =
                   [\<lparr>player_id = 1, race_actual = 1, player_result_result = 1,
                     player_apm = 180, player_mmr = 4200\<rparr>,
                    \<lparr>player_id = 2, race_actual = 2, player_result_result = 2,
                     player_apm = 150, player_mmr = 4100\<rparr>],
                 map_name = ''Abyssal Reef LE'', local_map_path = []\<rparr>),
      Race_Name = (\<lambda>n. if n = 1 then ''Terran'' else ''Zerg''),
      Result_Name = (\<lambda>n. if n = 1 then ''Victory'' else ''Defeat''),
      assign_to =
        (\<lambda>p. case p of
               (PyInt a, PyInt b) \<Rightarrow> Inr \<lparr>size_x = a, size_y = b\<rparr>
             | _ \<Rightarrow> Inl (TypeError ''an integer is required''))\<rparr>"

section \<open>Results: flags and the validity check\<close>

lemma check_valid_replay_rejects:
  "\<not> snd (check_valid_replay FLAGS info ping) \<longleftrightarrow>
     has_error info \<or>
     (base_build info = ping_base_build ping \<and>
      (game_duration_loops info < min_game_length FLAGS \<or> length (player_info info) \<noteq> 2))"
  by (simp add: check_valid_replay_def)

text \<open>
  Claim C1 (the code departs from it). The claim lists a differing base build among the
  reasons for which \<^verbatim>\<open>check_valid_replay\<close> returns \<^verbatim>\<open>False\<close>. On a replay without the
  error field whose base build (1) differs from the client's (2), the method prints
  \<^verbatim>\<open>Different base build...\<close> and returns \<^verbatim>\<open>True\<close>; the checks of the game length
  and of the number of players that follow in the chain are skipped, so this replay of 10
  loops (below the default bound of 3000) and without players is accepted.
\<close>

theorem check_valid_replay_accepts_other_build:
  "check_valid_replay default_flags short_replay_other_build \<lparr>ping_base_build = 2\<rparr>
     = ([''Different base build...''], True)
   \<and> \<not> has_error short_replay_other_build
   \<and> base_build short_replay_other_build \<noteq> ping_base_build \<lparr>ping_base_build = 2\<rparr>
   \<and> game_duration_loops short_replay_other_build < min_game_length default_flags
   \<and> length (player_info short_replay_other_build) \<noteq> 2"
  by (simp add: check_valid_replay_def short_replay_other_build_def default_flags_def)

text \<open>
  Claim C6. \<^verbatim>\<open>check_flags\<close> raises exactly when both of \<^verbatim>\<open>replay_file\<close> and
  \<^verbatim>\<open>replay_dir\<close> are given, when neither is given, or when \<^verbatim>\<open>screen_size\<close> differs from \<^verbatim>\<open>minimap_size\<close>, and what it raises is a \<^verbatim>\<open>ValueError\<close>; it returns normally
  exactly when one of the two is given and the sizes are equal.
\<close>

theorem check_flags_raises_iff:
  "((\<exists>msg. snd (check_flags FLAGS) = Inl (ValueError msg)) \<longleftrightarrow>
      (replay_file FLAGS \<noteq> None \<and> replay_dir FLAGS \<noteq> None)
      \<or> (replay_file FLAGS = None \<and> replay_dir FLAGS = None)
      \<or> screen_size FLAGS \<noteq> minimap_size FLAGS)
   \<and> (snd (check_flags FLAGS) = Inr () \<longleftrightarrow>
        (replay_file FLAGS = None) \<noteq> (replay_dir FLAGS = None)
        \<and> screen_size FLAGS = minimap_size FLAGS)"
  by (cases "replay_file FLAGS"; cases "replay_dir FLAGS")
     (auto simp: check_flags_def)

section \<open>Results: the SpatialFeatures named tuple\<close>

lemma tuple_index_Inr:
  "tuple_index us v = Inr i \<Longrightarrow> i < length us \<and> us ! i = v"
proof (induction us arbitrary: i)
  case Nil
  then show ?case by simp
next
  case (Cons u us)
  then show ?case
    by (cases "u = v") (auto split: sum.splits)
qed

text \<open>
  What the loop of \<^verbatim>\<open>__new__\<close> leaves under a name: the feature built from the last
  keyword of that name, or the earlier entry when there is no such keyword.
\<close>

lemma make_feats_lookup:
  "make_feats kwargs feats = Inr feats' \<Longrightarrow>
   feats' n =
     (case map_of (rev kwargs) n of
        None \<Rightarrow> feats n
      | Some (s, t, p) \<Rightarrow>
          (case tuple_index SpatialFeatures_fields n of
             Inl e \<Rightarrow> None
           | Inr i \<Rightarrow>
               Some \<lparr>index = i, name = n, layer_set = ''minimap_renders'',
                     full_name = ''spatial '' @ n, scale = s, type = t,
                     palette = (case p of Callable f \<Rightarrow> f s | Palette q \<Rightarrow> q),
                     clip = False\<rparr>))"
proof (induction kwargs arbitrary: feats)
  case Nil
  then show ?case by simp
next
  case (Cons kw kwargs)
  obtain n' s' t' p' where kw: "kw = (n', s', t', p')"
    by (cases kw) auto
  from Cons.prems kw obtain i' where
    idx: "tuple_index SpatialFeatures_fields n' = Inr i'" and
    rest: "make_feats kwargs
             (feats(n' \<mapsto> \<lparr>index = i', name = n', layer_set = ''minimap_renders'',
                     full_name = ''spatial '' @ n', scale = s', type = t',
                     palette = (case p' of Callable f \<Rightarrow> f s' | Palette q \<Rightarrow> q),
                     clip = False\<rparr>)) = Inr feats'"
    by (auto split: sum.splits)
  show ?case
    using Cons.IH [OF rest] idx kw
    by (auto simp: map_add_def split: option.splits)
qed

lemma namedtuple_new_lookup:
  "namedtuple_new fs feats = Inr vs \<Longrightarrow>
   length vs = length fs \<and> (\<forall>i < length fs. feats (fs ! i) = Some (vs ! i))"
proof (induction fs arbitrary: vs)
  case Nil
  then show ?case by simp
next
  case (Cons f fs)
  then show ?case
    by (auto split: option.splits sum.splits simp: nth_Cons split: nat.splits)
qed

lemma distinct_SpatialFeatures_fields: "distinct SpatialFeatures_fields"
  by (simp add: SpatialFeatures_fields_def)

text \<open>
  Claim C7. Whatever the library's colours and its non-empty list of unit types,
  \<^verbatim>\<open>SPATIAL_FEATURES\<close> is a tuple of 8 features whose names are, in order,
  \<^verbatim>\<open>height_map\<close>, \<^verbatim>\<open>visibility_map\<close>, \<^verbatim>\<open>creep\<close>, \<^verbatim>\<open>camera\<close>, \<^verbatim>\<open>player_id\<close>,
  \<^verbatim>\<open>player_relative\<close>, \<^verbatim>\<open>selected\<close>, \<^verbatim>\<open>unit_type\<close>, the fields of
  \<^verbatim>\<open>SpatialFeatures\<close>. The set of these fields is the set of the fields of
  \<^verbatim>\<open>MinimapFeatures\<close> together with \<^verbatim>\<open>unit_type\<close>, which is not among the latter, so the
  tuple is one longer than \<^verbatim>\<open>MINIMAP_FEATURES\<close>.
\<close>

theorem SPATIAL_FEATURES_eight_fields:
  "(\<exists>t. SPATIAL_FEATURES colors (u # us) = Inr t
        \<and> length t = 8
        \<and> map name t = [''height_map'', ''visibility_map'', ''creep'', ''camera'',
                         ''player_id'', ''player_relative'', ''selected'', ''unit_type'']
        \<and> map name t = SpatialFeatures_fields
        \<and> length t = length MinimapFeatures_fields + 1)
   \<and> set SpatialFeatures_fields = set MinimapFeatures_fields \<union> {''unit_type''}
   \<and> ''unit_type'' \<notin> set MinimapFeatures_fields
   \<and> length SpatialFeatures_fields = length MinimapFeatures_fields + 1"
proof (intro conjI)
  show "\<exists>t. SPATIAL_FEATURES colors (u # us) = Inr t
        \<and> length t = 8
        \<and> map name t = [''height_map'', ''visibility_map'', ''creep'', ''camera'',
                         ''player_id'', ''player_relative'', ''selected'', ''unit_type'']
        \<and> map name t = SpatialFeatures_fields
        \<and> length t = length MinimapFeatures_fields + 1"
    by (simp add: SPATIAL_FEATURES_def SpatialFeatures_new_def SpatialFeatures_fields_def
        MinimapFeatures_fields_def)
  show "set SpatialFeatures_fields = set MinimapFeatures_fields \<union> {''unit_type''}"
    by (auto simp: SpatialFeatures_fields_def MinimapFeatures_fields_def)
  show "''unit_type'' \<notin> set MinimapFeatures_fields"
    by (simp add: MinimapFeatures_fields_def)
  show "length SpatialFeatures_fields = length MinimapFeatures_fields + 1"
    by (simp add: SpatialFeatures_fields_def MinimapFeatures_fields_def)
qed

text \<open>
  Claim C10. When \<^verbatim>\<open>SpatialFeatures.__new__\<close> returns a tuple, the feature at each
  position \<open>i\<close> has \<open>i\<close> as its index, the \<open>i\<close>-th field as its name, the layer set
  \<^verbatim>\<open>minimap_renders\<close>, the full name \<^verbatim>\<open>spatial\<close>, a blank and its name, and the clip flag
  \<^verbatim>\<open>False\<close>; and it was built from a keyword of its name (the last one of that name),
  whose scale and type it carries, and whose palette it carries, applied to the scale when
  it is callable and as it is otherwise.
\<close>

theorem SpatialFeatures_new_invariant:
  assumes "SpatialFeatures_new kwargs = Inr t" and "i < length SpatialFeatures_fields"
  shows "index (t ! i) = i
       \<and> name (t ! i) = SpatialFeatures_fields ! i
       \<and> layer_set (t ! i) = ''minimap_renders''
       \<and> full_name (t ! i) = ''spatial '' @ name (t ! i)
       \<and> clip (t ! i) = False
       \<and> length t = length SpatialFeatures_fields
       \<and> (\<exists>s ty p. map_of (rev kwargs) (name (t ! i)) = Some (s, ty, p)
             \<and> scale (t ! i) = s \<and> type (t ! i) = ty
             \<and> palette (t ! i) = (case p of Callable f \<Rightarrow> f s | Palette q \<Rightarrow> q))"
proof -
  let ?n = "SpatialFeatures_fields ! i"
  from assms(1) obtain feats where
    mk: "make_feats kwargs Map.empty = Inr feats" and
    nt: "namedtuple_new SpatialFeatures_fields feats = Inr t"
    by (auto simp: SpatialFeatures_new_def split: sum.splits)
  from namedtuple_new_lookup [OF nt] assms(2) have
    at: "feats ?n = Some (t ! i)" and len: "length t = length SpatialFeatures_fields"
    by simp_all
  from make_feats_lookup [OF mk, of ?n] at obtain s ty p j where
    kw: "map_of (rev kwargs) ?n = Some (s, ty, p)" and
    idx: "tuple_index SpatialFeatures_fields ?n = Inr j" and
    ti: "t ! i = \<lparr>index = j, name = ?n, layer_set = ''minimap_renders'',
                   full_name = ''spatial '' @ ?n, scale = s, type = ty,
                   palette = (case p of Callable f \<Rightarrow> f s | Palette q \<Rightarrow> q),
                   clip = False\<rparr>"
    by (auto split: option.splits sum.splits)
  from tuple_index_Inr [OF idx] have "j < length SpatialFeatures_fields"
    and "SpatialFeatures_fields ! j = ?n" by simp_all
  with assms(2) distinct_SpatialFeatures_fields have "j = i"
    by (simp add: nth_eq_iff_index_eq)
  with kw ti len show ?thesis by simp
qed

theorem SpatialFeatures_new_invariant_witness:
  "\<exists>t. SpatialFeatures_new example_kwargs = Inr t
     \<and> 7 < length SpatialFeatures_fields
     \<and> index (t ! 7) = 7
     \<and> name (t ! 7) = ''unit_type''
     \<and> layer_set (t ! 7) = ''minimap_renders''
     \<and> full_name (t ! 7) = ''spatial unit_type''
     \<and> clip (t ! 7) = False
     \<and> scale (t ! 7) = 2000
     \<and> type (t ! 7) = CATEGORICAL
     \<and> palette (t ! 7) = [2000, 2000]"
proof -
  obtain t where t: "SpatialFeatures_new example_kwargs = Inr t"
    by (simp add: SpatialFeatures_new_def example_kwargs_def SpatialFeatures_fields_def)
  have i: "7 < length SpatialFeatures_fields"
    by (simp add: SpatialFeatures_fields_def)
  have n: "SpatialFeatures_fields ! 7 = ''unit_type''"
    by (simp add: SpatialFeatures_fields_def)
  have kw: "map_of (rev example_kwargs) ''unit_type''
              = Some (2000, CATEGORICAL, Callable (\<lambda>s. [s, s]))"
    by (simp add: example_kwargs_def)
  from SpatialFeatures_new_invariant [OF t i] n kw t i show ?thesis
    by auto
qed

section \<open>Results: the CustomFeatures class\<close>



text \<open>
  Claim C4. Whenever \<^verbatim>\<open>transform_obs\<close> returns, the dictionary it returns maps each of
  \<^verbatim>\<open>last_actions\<close>, \<^verbatim>\<open>action_result\<close>, \<^verbatim>\<open>alerts\<close>, \<^verbatim>\<open>game_loop\<close>,
  \<^verbatim>\<open>score_cumulative\<close>, \<^verbatim>\<open>score_by_category\<close>, \<^verbatim>\<open>score_by_vital\<close> and \<^verbatim>\<open>player\<close> to
  \<^verbatim>\<open>None\<close>.
\<close>

theorem transform_obs_placeholders:
  "transform_obs lib self ob = Inr out \<Longrightarrow>
     out ''last_actions'' = Some PyNone
   \<and> out ''action_result'' = Some PyNone
   \<and> out ''alerts'' = Some PyNone
   \<and> out ''game_loop'' = Some PyNone
   \<and> out ''score_cumulative'' = Some PyNone
   \<and> out ''score_by_category'' = Some PyNone
   \<and> out ''score_by_vital'' = Some PyNone
   \<and> out ''player'' = Some PyNone"
  unfolding transform_obs_def Let_def
  by (auto split: sum.splits if_splits)

theorem transform_obs_placeholders_witness:
  "\<exists>out. transform_obs example_render_lib \<lparr>self_agent_interface_format = feature_format\<rparr> ()
            = Inr out
     \<and> out ''feature_screen''
         = Some (NamedNumpyArray [replicate 64 (replicate 64 0)] [Some ''ScreenFeatures'', None, None])
     \<and> out ''last_actions'' = Some PyNone
     \<and> out ''action_result'' = Some PyNone
     \<and> out ''alerts'' = Some PyNone
     \<and> out ''game_loop'' = Some PyNone
     \<and> out ''score_cumulative'' = Some PyNone
     \<and> out ''score_by_category'' = Some PyNone
     \<and> out ''score_by_vital'' = Some PyNone
     \<and> out ''player'' = Some PyNone"
proof -
  obtain out where
    out: "transform_obs example_render_lib \<lparr>self_agent_interface_format = feature_format\<rparr> ()
            = Inr out"
    by (simp add: transform_obs_def Let_def example_render_lib_def feature_format_def stacked_def)
  have "out ''feature_screen''
         = Some (NamedNumpyArray [replicate 64 (replicate 64 0)] [Some ''ScreenFeatures'', None, None])"
    using out
    by (auto simp: transform_obs_def Let_def example_render_lib_def feature_format_def stacked_def
        or_zeros_def dims64_def)
  with transform_obs_placeholders [OF out] out show ?thesis
    by blast
qed

section \<open>Results: the ReplayParser constructor\<close>

lemma configure_size_invalid:
  "\<not> isinstance_tuple v \<Longrightarrow> \<not> isinstance_int v \<Longrightarrow> configure_size v = Inl (ValueError [])"
  by (cases v) simp_all

lemma configure_size_valid:
  "isinstance_tuple v \<or> isinstance_int v \<Longrightarrow> \<exists>vs. configure_size v = Inr vs"
  by (cases v) simp_all

lemma configure_size_cases:
  "configure_size v = Inl (ValueError []) \<or> (\<exists>vs. configure_size v = Inr vs)"
  by (cases v) simp_all

text \<open>
  Claim C9. The constructor turns an integer size \<open>s\<close> into the pair \<open>(s, s)\<close> and leaves a
  tuple as it is, for the screen and for the minimap, and the object it returns holds those
  pairs. A size that is neither a tuple nor an integer, in either position, makes it raise
  \<^verbatim>\<open>ValueError\<close> with no event before it, so before the game process is started. A
  tuple whose length is not 2, in either position and next to a size that is a tuple or an
  integer, makes it raise \<^verbatim>\<open>AssertionError\<close>, again with no event before it.
\<close>

theorem ReplayParser_init_sizes:
  fixes ev :: "('a, 'o, 'ao) event list"
  shows
  "configure_size (PyInt s) = Inr [PyInt s, PyInt s]
   \<and> configure_size (PyTuple vs) = Inr vs
   \<and> (\<not> isinstance_tuple v \<and> \<not> isinstance_int v \<longrightarrow>
        ReplayParser_init FLAGS env path pid v w d m
          = ([] :: ('a, 'o, 'ao) event list, Inl (ValueError []))
        \<and> ReplayParser_init FLAGS env path pid w v d m
          = ([] :: ('a, 'o, 'ao) event list, Inl (ValueError [])))
   \<and> (length vs \<noteq> 2 \<and> (isinstance_tuple w \<or> isinstance_int w) \<longrightarrow>
        ReplayParser_init FLAGS env path pid (PyTuple vs) w d m
          = ([] :: ('a, 'o, 'ao) event list, Inl AssertionError)
        \<and> ReplayParser_init FLAGS env path pid w (PyTuple vs) d m
          = ([] :: ('a, 'o, 'ao) event list, Inl AssertionError))
   \<and> (ReplayParser_init FLAGS env path pid sz msz d m = (ev, Inr p) \<longrightarrow>
        (\<forall>n. sz = PyInt n \<longrightarrow> self_screen_size p = (PyInt n, PyInt n))
        \<and> (\<forall>xs. sz = PyTuple xs \<longrightarrow> xs = [fst (self_screen_size p), snd (self_screen_size p)])
        \<and> (\<forall>n. msz = PyInt n \<longrightarrow> self_minimap_size p = (PyInt n, PyInt n))
        \<and> (\<forall>xs. msz = PyTuple xs \<longrightarrow>
              xs = [fst (self_minimap_size p), snd (self_minimap_size p)]))"
proof (intro conjI impI)
  show "configure_size (PyInt s) = Inr [PyInt s, PyInt s]" by simp
  show "configure_size (PyTuple vs) = Inr vs" by simp
next
  assume a: "\<not> isinstance_tuple v \<and> \<not> isinstance_int v"
  then have v: "configure_size v = Inl (ValueError [])"
    by (simp add: configure_size_invalid)
  show "ReplayParser_init FLAGS env path pid v w d m
          = ([] :: ('a, 'o, 'ao) event list, Inl (ValueError []))"
    by (simp add: ReplayParser_init_def v)
  show "ReplayParser_init FLAGS env path pid w v d m
          = ([] :: ('a, 'o, 'ao) event list, Inl (ValueError []))"
    using configure_size_cases [of w]
    by (auto simp: ReplayParser_init_def v)
next
  assume a: "length vs \<noteq> 2 \<and> (isinstance_tuple w \<or> isinstance_int w)"
  then obtain ws where w: "configure_size w = Inr ws"
    using configure_size_valid by blast
  show "ReplayParser_init FLAGS env path pid (PyTuple vs) w d m
          = ([] :: ('a, 'o, 'ao) event list, Inl AssertionError)"
    using a by (simp add: ReplayParser_init_def w)
  show "ReplayParser_init FLAGS env path pid w (PyTuple vs) d m
          = ([] :: ('a, 'o, 'ao) event list, Inl AssertionError)"
    using a by (simp add: ReplayParser_init_def w)
next
  assume a: "ReplayParser_init FLAGS env path pid sz msz d m = (ev, Inr p)"
  then obtain ss ms' where
    ss: "configure_size sz = Inr ss" "length ss = 2" "self_screen_size p = (ss ! 0, ss ! 1)" and
    ms: "configure_size msz = Inr ms'" "length ms' = 2" "self_minimap_size p = (ms' ! 0, ms' ! 1)"
    unfolding ReplayParser_init_def Let_def
    by (auto split: sum.splits if_splits)
  have two: "\<And>xs :: pyval list. length xs = 2 \<Longrightarrow> xs = [xs ! 0, xs ! 1]"
  proof -
    fix xs :: "pyval list"
    assume "length xs = 2"
    then obtain x y where "xs = [x, y]"
      by (cases xs; cases "tl xs") auto
    then show "xs = [xs ! 0, xs ! 1]" by simp
  qed
  show "\<forall>n. sz = PyInt n \<longrightarrow> self_screen_size p = (PyInt n, PyInt n)"
    using ss by auto
  show "\<forall>xs. sz = PyTuple xs \<longrightarrow> xs = [fst (self_screen_size p), snd (self_screen_size p)]"
    using ss two by auto
  show "\<forall>n. msz = PyInt n \<longrightarrow> self_minimap_size p = (PyInt n, PyInt n)"
    using ms by auto
  show "\<forall>xs. msz = PyTuple xs \<longrightarrow> xs = [fst (self_minimap_size p), snd (self_minimap_size p)]"
    using ms two by auto
qed

theorem ReplayParser_init_sizes_witness:
  "\<not> isinstance_tuple (PyStr ''64'') \<and> \<not> isinstance_int (PyStr ''64'')
   \<and> isinstance_int (PyInt 64)
   \<and> length [PyInt 84, PyInt 84, PyInt 3] \<noteq> 2
   \<and> ReplayParser_init default_flags example_env ''a.SC2Replay'' 1
         (PyStr ''64'') (PyInt 64) 1 4
       = ([] :: (nat, nat, nat) event list, Inl (ValueError []))
   \<and> ReplayParser_init default_flags example_env ''a.SC2Replay'' 1
         (PyInt 64) (PyTuple [PyInt 84, PyInt 84, PyInt 3]) 1 4
       = ([] :: (nat, nat, nat) event list, Inl AssertionError)
   \<and> (\<exists>(ev :: (nat, nat, nat) event list) p.
          ReplayParser_init default_flags example_env ''a.SC2Replay'' 1
            (PyInt 64) (PyTuple [PyInt 32, PyInt 48]) 1 4 = (ev, Inr p)
          \<and> hd ev = RunConfigStart
          \<and> self_screen_size p = (PyInt 64, PyInt 64)
          \<and> self_minimap_size p = (PyInt 32, PyInt 48)
          \<and> self_state p = FIRST)"
proof -
  obtain ev :: "(nat, nat, nat) event list" and p where
    run: "ReplayParser_init default_flags example_env ''a.SC2Replay'' 1
            (PyInt 64) (PyTuple [PyInt 32, PyInt 48]) 1 4 = (ev, Inr p)"
    and more: "hd ev = RunConfigStart" "self_state p = FIRST"
    by (simp add: ReplayParser_init_def example_env_def default_flags_def check_valid_replay_def)
  have bad: "\<not> isinstance_tuple (PyStr ''64'') \<and> \<not> isinstance_int (PyStr ''64'')"
    and ok: "isinstance_int (PyInt 64)"
    and len: "length [PyInt 84, PyInt 84, PyInt 3] \<noteq> 2"
    by simp_all
  note inst = ReplayParser_init_sizes
         [where v = "PyStr ''64''" and w = "PyInt 64" and vs = "[PyInt 84, PyInt 84, PyInt 3]"
            and FLAGS = default_flags and env = example_env and path = "''a.SC2Replay''"
            and pid = 1 and d = 1 and m = 4 and sz = "PyInt 64"
            and msz = "PyTuple [PyInt 32, PyInt 48]" and ev = ev and p = p and s = 64]
  from inst bad have e1:
    "ReplayParser_init default_flags example_env ''a.SC2Replay'' 1 (PyStr ''64'') (PyInt 64) 1 4
       = ([] :: (nat, nat, nat) event list, Inl (ValueError []))"
    by blast
  from inst len ok have e2:
    "ReplayParser_init default_flags example_env ''a.SC2Replay'' 1
         (PyInt 64) (PyTuple [PyInt 84, PyInt 84, PyInt 3]) 1 4
       = ([] :: (nat, nat, nat) event list, Inl AssertionError)"
    by blast
  from inst run have e3: "self_screen_size p = (PyInt 64, PyInt 64)"
    and e4: "[PyInt 32, PyInt 48] = [fst (self_minimap_size p), snd (self_minimap_size p)]"
    by blast+
  from e4 have e5: "self_minimap_size p = (PyInt 32, PyInt 48)"
    by (cases "self_minimap_size p") simp
  from bad ok len e1 e2 e3 e5 run more show ?thesis
    by blast
qed

section \<open>Results: the replay files of main\<close>


section \<open>Results: the loop of ReplayParser.start\<close>

lemma start_loop_Continue:
  "fst (loop_body ctl tr r) = Continue \<Longrightarrow>
   start_loop ctl tr r = start_loop ctl tr (snd (loop_body ctl tr r))"
  by (cases "loop_body ctl tr r") (subst start_loop.simps, simp)

lemma start_loop_Break:
  "fst (loop_body ctl tr r) = Break \<Longrightarrow>
   start_loop ctl tr r = Some (None, snd (loop_body ctl tr r))"
  by (cases "loop_body ctl tr r") (subst start_loop.simps, simp)

lemma start_loop_Raise:
  "fst (loop_body ctl tr r) = Raise e \<Longrightarrow>
   start_loop ctl tr r = Some (Some e, snd (loop_body ctl tr r))"
  by (cases "loop_body ctl tr r") (subst start_loop.simps, simp)

lemma passes_run:
  assumes first: "tr (obs_at ctl (self_step_mul self) c 0) = Inr a0"
    and going: "\<forall>k<j. player_result (obs_at ctl (self_step_mul self) c k) = []"
  shows "passes ctl tr j \<lparr>run_self = self, run_ctl = c, agent_obs = None, run_events = [CtlGameInfo]\<rparr> =
     \<lparr>run_self = self\<lparr>self_state := (if j = 0 then self_state self else MID),
                     self_episode_steps := self_episode_steps self + int j * self_step_mul self\<rparr>,
      run_ctl = ctl_at ctl (self_step_mul self) c j,
      agent_obs = (if j = 0 then None
                   else Some (stale_obs tr (obs_at ctl (self_step_mul self) c) a0 (j - 1))),
      run_events = CtlGameInfo # concat (map (\<lambda>k. iteration_events tr
                      (obs_at ctl (self_step_mul self) c) a0 (self_step_mul self)
                      (if k = 0 then self_state self else MID) (self_discount self) k) [0..<j])\<rparr>"
  using going
proof (induction j)
  case 0
  show ?case by simp
next
  case (Suc j)
  from Suc.prems have prev: "\<forall>k<j. player_result (obs_at ctl (self_step_mul self) c k) = []"
    and now: "player_result (obs_at ctl (self_step_mul self) c j) = []"
    by simp_all
  note IH = Suc.IH [OF prev]
  show ?case
  proof (cases j)
    case 0
    with IH now first show ?thesis
      by (simp add: loop_body_def Let_def obs_at_def [abs_def] iteration_events_def)
  next
    case (Suc i)
    with IH now show ?thesis
      by (cases "tr (obs_at ctl (self_step_mul self) c (Suc i))")
         (simp_all add: loop_body_def Let_def obs_at_def [abs_def] iteration_events_def algebra_simps)
  qed
qed

lemma passes_shift: "passes ctl tr j (snd (loop_body ctl tr r)) = passes ctl tr (Suc j) r"
  by (induction j) simp_all

lemma start_loop_passes:
  "(\<forall>k<j. fst (loop_body ctl tr (passes ctl tr k r)) = Continue) \<Longrightarrow>
   start_loop ctl tr r = start_loop ctl tr (passes ctl tr j r)"
proof (induction j)
  case 0
  then show ?case by simp
next
  case (Suc j)
  then have "start_loop ctl tr r = start_loop ctl tr (passes ctl tr j r)" by simp
  also have "\<dots> = start_loop ctl tr (snd (loop_body ctl tr (passes ctl tr j r)))"
    using Suc.prems by (simp add: start_loop_Continue)
  finally show ?case by simp
qed

lemma pass_outcome:
  assumes first: "tr (obs_at ctl (self_step_mul self) c 0) = Inr a0"
    and going: "\<forall>k<j. player_result (obs_at ctl (self_step_mul self) c k) = []"
  shows "fst (loop_body ctl tr (passes ctl tr j
            \<lparr>run_self = self, run_ctl = c, agent_obs = None, run_events = [CtlGameInfo]\<rparr>))
         = (if player_result (obs_at ctl (self_step_mul self) c j) \<noteq> [] then Break else Continue)"
    and "player_result (obs_at ctl (self_step_mul self) c j) \<noteq> [] \<Longrightarrow>
         run_events (snd (loop_body ctl tr (passes ctl tr j
            \<lparr>run_self = self, run_ctl = c, agent_obs = None, run_events = [CtlGameInfo]\<rparr>)))
         = CtlGameInfo # concat (map (\<lambda>k. iteration_events tr
                      (obs_at ctl (self_step_mul self) c) a0 (self_step_mul self)
                      (if k = 0 then self_state self else MID) (self_discount self) k) [0..<j])
           @ iteration_events tr (obs_at ctl (self_step_mul self) c) a0 (self_step_mul self) LAST 0 j"
proof -
  note run = passes_run [where tr = tr and ctl = ctl and self = self and c = c and ?a0.0 = a0
      and j = j, OF first going]
  show "fst (loop_body ctl tr (passes ctl tr j
            \<lparr>run_self = self, run_ctl = c, agent_obs = None, run_events = [CtlGameInfo]\<rparr>))
         = (if player_result (obs_at ctl (self_step_mul self) c j) \<noteq> [] then Break else Continue)"
  proof (cases j)
    case 0
    with first show ?thesis
      by (simp add: loop_body_def Let_def obs_at_def [abs_def])
  next
    case (Suc i)
    show ?thesis
      unfolding run using Suc
      by (cases "tr (obs_at ctl (self_step_mul self) c (Suc i))")
         (simp_all add: loop_body_def Let_def obs_at_def [abs_def])
  qed
  assume ended: "player_result (obs_at ctl (self_step_mul self) c j) \<noteq> []"
  show "run_events (snd (loop_body ctl tr (passes ctl tr j
            \<lparr>run_self = self, run_ctl = c, agent_obs = None, run_events = [CtlGameInfo]\<rparr>)))
         = CtlGameInfo # concat (map (\<lambda>k. iteration_events tr
                      (obs_at ctl (self_step_mul self) c) a0 (self_step_mul self)
                      (if k = 0 then self_state self else MID) (self_discount self) k) [0..<j])
           @ iteration_events tr (obs_at ctl (self_step_mul self) c) a0 (self_step_mul self) LAST 0 j"
  proof (cases j)
    case 0
    with first ended show ?thesis
      by (simp add: loop_body_def Let_def obs_at_def [abs_def] iteration_events_def)
  next
    case (Suc i)
    show ?thesis
      unfolding run using Suc ended
      by (cases "tr (obs_at ctl (self_step_mul self) c (Suc i))")
         (simp_all add: loop_body_def Let_def obs_at_def [abs_def] iteration_events_def)
  qed
qed

lemma start_loop_Some_stops:
  assumes "start_loop ctl tr r = Some y"
  shows "\<exists>j. fst (loop_body ctl tr (passes ctl tr j r)) \<noteq> Continue"
proof (rule start_loop.raw_induct
         [where P = "\<lambda>ctl tr r y. \<exists>j. fst (loop_body ctl tr (passes ctl tr j r)) \<noteq> Continue",
          OF _ assms])
  fix f :: "('a, 'b, 'c) controller \<Rightarrow> (('b, 'c) response_observation \<Rightarrow> error + 'd) \<Rightarrow>
            ('a, 'b, 'c, 'd) run \<Rightarrow> (error option \<times> ('a, 'b, 'c, 'd) run) option"
    and ctl tr r y
  assume IH: "\<And>ctl tr r y. f ctl tr r = Some y \<Longrightarrow>
                \<exists>j. fst (loop_body ctl tr (passes ctl tr j r)) \<noteq> Continue"
    and eq: "(case loop_body ctl tr r of
                (Continue, r') \<Rightarrow> f ctl tr r'
              | (Break, r') \<Rightarrow> Some (None, r')
              | (Raise e, r') \<Rightarrow> Some (Some e, r')) = Some y"
  show "\<exists>j. fst (loop_body ctl tr (passes ctl tr j r)) \<noteq> Continue"
  proof (cases "fst (loop_body ctl tr r) = Continue")
    case True
    with eq have "f ctl tr (snd (loop_body ctl tr r)) = Some y"
      by (cases "loop_body ctl tr r") simp
    from IH [OF this] obtain j where
      "fst (loop_body ctl tr (passes ctl tr j (snd (loop_body ctl tr r)))) \<noteq> Continue" ..
    then have "fst (loop_body ctl tr (passes ctl tr (Suc j) r)) \<noteq> Continue"
      by (metis passes_shift)
    then show ?thesis ..
  next
    case False
    then have "fst (loop_body ctl tr (passes ctl tr 0 r)) \<noteq> Continue" by simp
    then show ?thesis ..
  qed
qed

lemma start_returns:
  assumes first: "tr (obs_at ctl (self_step_mul self) c 0) = Inr a0"
    and ended: "player_result (obs_at ctl (self_step_mul self) c n) \<noteq> []"
    and going: "\<forall>k<n. player_result (obs_at ctl (self_step_mul self) c k) = []"
  shows "\<exists>r. start ctl tr self c = Some (None, r)
           \<and> run_events r =
               CtlGameInfo # concat (map (\<lambda>k. iteration_events tr
                      (obs_at ctl (self_step_mul self) c) a0 (self_step_mul self)
                      (if k = 0 then self_state self else MID) (self_discount self) k) [0..<n])
               @ iteration_events tr (obs_at ctl (self_step_mul self) c) a0 (self_step_mul self)
                   LAST 0 n"
proof -
  let ?r0 = "\<lparr>run_self = self, run_ctl = c, agent_obs = None, run_events = [CtlGameInfo]\<rparr>"
  have cont: "\<forall>k<n. fst (loop_body ctl tr (passes ctl tr k ?r0)) = Continue"
  proof (intro allI impI)
    fix k assume k: "k < n"
    with going have g: "\<forall>i<k. player_result (obs_at ctl (self_step_mul self) c i) = []"
      by simp
    from pass_outcome(1) [where tr = tr and ctl = ctl and self = self and c = c and ?a0.0 = a0
        and j = k, OF first g] going k
    show "fst (loop_body ctl tr (passes ctl tr k ?r0)) = Continue" by simp
  qed
  have brk: "fst (loop_body ctl tr (passes ctl tr n ?r0)) = Break"
    using pass_outcome(1) [where tr = tr and ctl = ctl and self = self and c = c and ?a0.0 = a0
        and j = n, OF first going] ended by simp
  have "start ctl tr self c = start_loop ctl tr (passes ctl tr n ?r0)"
    unfolding start_def using start_loop_passes [OF cont] .
  also have "\<dots> = Some (None, snd (loop_body ctl tr (passes ctl tr n ?r0)))"
    using brk by (rule start_loop_Break)
  finally have "start ctl tr self c = Some (None, snd (loop_body ctl tr (passes ctl tr n ?r0)))" .
  with pass_outcome(2) [where tr = tr and ctl = ctl and self = self and c = c and ?a0.0 = a0
        and j = n, OF first going ended]
  show ?thesis by blast
qed

lemma start_diverges:
  assumes first: "tr (obs_at ctl (self_step_mul self) c 0) = Inr a0"
    and never: "\<forall>k. player_result (obs_at ctl (self_step_mul self) c k) = []"
  shows "start ctl tr self c = None"
proof (rule ccontr)
  assume "start ctl tr self c \<noteq> None"
  then obtain y where "start ctl tr self c = Some y" by auto
  then have "start_loop ctl tr
      \<lparr>run_self = self, run_ctl = c, agent_obs = None, run_events = [CtlGameInfo]\<rparr> = Some y"
    by (simp add: start_def)
  from start_loop_Some_stops [OF this] obtain j where
    stop: "fst (loop_body ctl tr (passes ctl tr j
             \<lparr>run_self = self, run_ctl = c, agent_obs = None, run_events = [CtlGameInfo]\<rparr>))
           \<noteq> Continue" ..
  from never have g: "\<forall>k<j. player_result (obs_at ctl (self_step_mul self) c k) = []"
    by simp
  from pass_outcome(1) [where tr = tr and ctl = ctl and self = self and c = c and ?a0.0 = a0
        and j = j, OF first g] never stop
  show False by simp
qed

lemma iteration_events_AgentStep:
  "AgentStep ts acts \<in> set (iteration_events tr obs a0 m st disc k) \<Longrightarrow>
   step_type ts = st \<and> ts_discount ts = disc"
  by (auto simp: iteration_events_def split: sum.splits)

lemma iteration_events_snoc:
  "\<exists>pre ts. iteration_events tr obs a0 m st disc k = pre @ [AgentStep ts (actions (obs k))]
      \<and> step_type ts = st \<and> ts_discount ts = disc
      \<and> (\<forall>ts' acts'. AgentStep ts' acts' \<notin> set pre)"
proof -
  let ?pre = "[CtlStep m, CtlObserve, TransformObs (obs k)]
     @ (case tr (obs k) of Inl e \<Rightarrow> [Print (str e @ '' passing...'')] | Inr a \<Rightarrow> [])"
  let ?ts = "\<lparr>step_type = st, reward = 0, ts_discount = disc,
              ts_observation = stale_obs tr obs a0 k\<rparr>"
  have "iteration_events tr obs a0 m st disc k = ?pre @ [AgentStep ?ts (actions (obs k))]"
    by (simp add: iteration_events_def)
  moreover have "\<forall>ts' acts'. AgentStep ts' acts' \<notin> set ?pre"
    by (simp split: sum.splits)
  moreover have "step_type ?ts = st \<and> ts_discount ?ts = disc" by simp
  ultimately show ?thesis by blast
qed

text \<open>
  The loop when the first call of \<^verbatim>\<open>transform_obs\<close> returns, on a parser in the state
  the constructor leaves it (step type \<^verbatim>\<open>FIRST\<close>). Then \<^verbatim>\<open>start\<close> terminates
  exactly when some observation has a non-empty \<^verbatim>\<open>player_result\<close>, and it then returns
  normally after the pass \<open>n\<close> that received the first such observation. Its events are,
  after the game info, those of the passes 0 to \<open>n\<close>, each pass being the controller's
  \<^verbatim>\<open>step(step_mul)\<close>, its \<^verbatim>\<open>observe()\<close>, \<^verbatim>\<open>transform_obs\<close> on the observation, and
  the agent's \<^verbatim>\<open>step\<close>, in this order; the time step of pass \<open>n\<close> has step type
  \<^verbatim>\<open>LAST\<close> and discount 0, that of an earlier pass has step type \<^verbatim>\<open>FIRST\<close> (pass 0)
  or \<^verbatim>\<open>MID\<close> and the parser's discount. The agent's step with \<^verbatim>\<open>LAST\<close> is the last
  event: no agent step follows it.
\<close>

lemma start_order_and_termination:
  assumes init: "self_state self = FIRST"
    and first: "tr (obs_at ctl (self_step_mul self) c 0) = Inr a0"
  shows
   "(start ctl tr self c \<noteq> None \<longleftrightarrow>
       (\<exists>n. player_result (obs_at ctl (self_step_mul self) c n) \<noteq> []))
    \<and> (\<forall>out. start ctl tr self c = Some out \<longrightarrow>
          fst out = None
          \<and> (\<exists>n. player_result (obs_at ctl (self_step_mul self) c n) \<noteq> []
               \<and> (\<forall>k<n. player_result (obs_at ctl (self_step_mul self) c k) = [])
               \<and> run_events (snd out) =
                   CtlGameInfo # concat (map (\<lambda>k. iteration_events tr
                      (obs_at ctl (self_step_mul self) c) a0 (self_step_mul self)
                      (if k = n then LAST else if k = 0 then FIRST else MID)
                      (if k = n then 0 else self_discount self) k) [0..<Suc n])
               \<and> (\<exists>evs ts. run_events (snd out)
                              = evs @ [AgentStep ts (actions (obs_at ctl (self_step_mul self) c n))]
                     \<and> step_type ts = LAST \<and> ts_discount ts = 0
                     \<and> (\<forall>ts' acts'. AgentStep ts' acts' \<in> set evs \<longrightarrow>
                           (step_type ts' = FIRST \<or> step_type ts' = MID)
                           \<and> ts_discount ts' = self_discount self))))"
proof (cases "\<exists>n. player_result (obs_at ctl (self_step_mul self) c n) \<noteq> []")
  case False
  then have "start ctl tr self c = None"
    using start_diverges [where tr = tr and ctl = ctl and self = self and c = c and ?a0.0 = a0, OF first] by simp
  with False show ?thesis by simp
next
  case True
  let ?obs = "obs_at ctl (self_step_mul self) c"
  let ?f = "\<lambda>k. iteration_events tr ?obs a0 (self_step_mul self)
                (if k = 0 then self_state self else MID) (self_discount self) k"
  from True obtain n where ended: "player_result (?obs n) \<noteq> []"
    and going: "\<forall>k<n. player_result (?obs k) = []"
    using exists_least_iff [of "\<lambda>n. player_result (?obs n) \<noteq> []"] by auto
  from start_returns [where tr = tr and ctl = ctl and self = self and c = c and ?a0.0 = a0 and n = n,
      OF first ended going] obtain r where
    ret: "start ctl tr self c = Some (None, r)" and
    ev: "run_events r = CtlGameInfo # concat (map ?f [0..<n])
           @ iteration_events tr ?obs a0 (self_step_mul self) LAST 0 n"
    by blast
  let ?g = "\<lambda>k. iteration_events tr ?obs a0 (self_step_mul self)
                (if k = n then LAST else if k = 0 then FIRST else MID)
                (if k = n then 0 else self_discount self) k"
  have mapeq: "map ?g [0..<n] = map ?f [0..<n]"
    using init by (intro map_cong) auto
  have unroll: "concat (map ?g [0..<Suc n]) = concat (map ?g [0..<n]) @ ?g n"
    by simp
  have final: "?g n = iteration_events tr ?obs a0 (self_step_mul self) LAST 0 n"
    by simp
  have form: "run_events r = CtlGameInfo # concat (map ?g [0..<Suc n])"
    by (simp only: ev unroll final mapeq)
  from iteration_events_snoc [of tr ?obs a0 "self_step_mul self" LAST 0 n]
  obtain pre ts where
    snoc: "iteration_events tr ?obs a0 (self_step_mul self) LAST 0 n
             = pre @ [AgentStep ts (actions (?obs n))]"
    and ts: "step_type ts = LAST" "ts_discount ts = 0"
    and pre: "\<forall>ts' acts'. AgentStep ts' acts' \<notin> set pre"
    by blast
  let ?evs = "CtlGameInfo # concat (map ?f [0..<n]) @ pre"
  have split: "run_events r = ?evs @ [AgentStep ts (actions (?obs n))]"
    using ev snoc by simp
  have earlier: "\<forall>ts' acts'. AgentStep ts' acts' \<in> set ?evs \<longrightarrow>
      (step_type ts' = FIRST \<or> step_type ts' = MID) \<and> ts_discount ts' = self_discount self"
  proof (intro allI impI)
    fix ts' acts'
    assume "AgentStep ts' acts' \<in> set ?evs"
    with pre obtain k where "k < n" and "AgentStep ts' acts' \<in> set (?f k)"
      by auto
    from iteration_events_AgentStep [OF this(2)] init
    show "(step_type ts' = FIRST \<or> step_type ts' = MID) \<and> ts_discount ts' = self_discount self"
      by (cases "k = 0") simp_all
  qed
  have "\<exists>evs ts. run_events r = evs @ [AgentStep ts (actions (?obs n))]
          \<and> step_type ts = LAST \<and> ts_discount ts = 0
          \<and> (\<forall>ts' acts'. AgentStep ts' acts' \<in> set evs \<longrightarrow>
                (step_type ts' = FIRST \<or> step_type ts' = MID)
                \<and> ts_discount ts' = self_discount self)"
    using split ts earlier by blast
  with ret ended going form True show ?thesis
    by auto
qed

lemma start_unbound_agent_obs:
  assumes "tr (obs_at ctl (self_step_mul self) c 0) = Inl e"
  shows "\<exists>r. start ctl tr self c
               = Some (Some (UnboundLocalError
                    ''local variable 'agent_obs' referenced before assignment''), r)
           \<and> (\<forall>ts acts. AgentStep ts acts \<notin> set (run_events r))"
proof -
  let ?r0 = "\<lparr>run_self = self, run_ctl = c, agent_obs = None, run_events = [CtlGameInfo]\<rparr>"
  from assms have body: "fst (loop_body ctl tr ?r0)
      = Raise (UnboundLocalError ''local variable 'agent_obs' referenced before assignment'')"
    and ev: "\<forall>ts acts. AgentStep ts acts \<notin> set (run_events (snd (loop_body ctl tr ?r0)))"
    by (simp_all add: loop_body_def Let_def obs_at_def)
  from start_loop_Raise [OF body] ev show ?thesis
    by (simp add: start_def)
qed

lemma loop_body_stale_observation:
  assumes "agent_obs r = Some a"
    and "tr (fst (ctl_observe ctl (ctl_step ctl (self_step_mul (run_self r)) (run_ctl r)))) = Inl e"
  shows "(fst (loop_body ctl tr r) = Continue \<or> fst (loop_body ctl tr r) = Break)
       \<and> (\<exists>ts acts. last (run_events (snd (loop_body ctl tr r))) = AgentStep ts acts
             \<and> ts_observation ts = a)"
  using assms by (simp add: loop_body_def Let_def)

text \<open>
  Claim C2 (the code departs from it on the first pass). When \<^verbatim>\<open>transform_obs\<close> raises
  in a pass after one in which it returned, the exception is printed, the pass goes on and
  the agent receives the earlier observation (\<open>loop_body_stale_observation\<close>). When it
  raises in the first pass, \<^verbatim>\<open>agent_obs\<close> is unbound at line 169: \<^verbatim>\<open>start\<close> ends with
  \<^verbatim>\<open>UnboundLocalError\<close>, no time step is built and the agent is never called
  (\<open>start_unbound_agent_obs\<close>). Below, the run on a controller that steps by 4 game loops
  and a \<^verbatim>\<open>transform_obs\<close> that raises: the events end with the printed line.
\<close>

theorem start_first_transform_raises:
  "failing_transform (obs_at (counting_controller 8) 4 0 0) = Inl (Exception ''no feature layers'')
   \<and> (\<exists>r. start (counting_controller 8) failing_transform example_parser 0
             = Some (Some (UnboundLocalError
                  ''local variable 'agent_obs' referenced before assignment''), r)
         \<and> run_events r =
             [CtlGameInfo, CtlStep 4, CtlObserve,
              TransformObs \<lparr>player_result = [], actions = [], observation = 4\<rparr>,
              Print ''no feature layers passing...''])"
proof -
  let ?r0 = "\<lparr>run_self = example_parser, run_ctl = 0, agent_obs = None,
              run_events = [CtlGameInfo]\<rparr>"
  have body: "fst (loop_body (counting_controller 8) failing_transform ?r0)
      = Raise (UnboundLocalError ''local variable 'agent_obs' referenced before assignment'')"
    and ev: "run_events (snd (loop_body (counting_controller 8) failing_transform ?r0)) =
             [CtlGameInfo, CtlStep 4, CtlObserve,
              TransformObs \<lparr>player_result = [], actions = [], observation = 4\<rparr>,
              Print ''no feature layers passing...'']"
    by (simp_all add: loop_body_def Let_def counting_controller_def failing_transform_def
        example_parser_def)
  from start_loop_Raise [OF body] ev show ?thesis
    by (simp add: start_def failing_transform_def)
qed

lemma start_order_and_termination_example:
  "self_state example_parser = FIRST
   \<and> late_failing_transform
        (obs_at (counting_controller 8) (self_step_mul example_parser) 0 0) = Inr 4
   \<and> (\<exists>r. start (counting_controller 8) late_failing_transform example_parser 0 = Some (None, r)
         \<and> run_events r =
             [CtlGameInfo,
              CtlStep 4, CtlObserve,
              TransformObs \<lparr>player_result = [], actions = [], observation = 4\<rparr>,
              AgentStep \<lparr>step_type = FIRST, reward = 0, ts_discount = 1, ts_observation = 4\<rparr> [],
              CtlStep 4, CtlObserve,
              TransformObs \<lparr>player_result = [(1, 1), (2, 2)], actions = [], observation = 8\<rparr>,
              Print ''no feature layers passing...'',
              AgentStep \<lparr>step_type = LAST, reward = 0, ts_discount = 0, ts_observation = 4\<rparr> []])"
proof -
  let ?ctl = "counting_controller 8"
  let ?obs = "obs_at ?ctl (self_step_mul example_parser) 0"
  have init: "self_state example_parser = FIRST"
    by (simp add: example_parser_def)
  have o0: "?obs 0 = \<lparr>player_result = [], actions = [], observation = 4\<rparr>"
    by (simp add: obs_at_def counting_controller_def example_parser_def)
  have o1: "?obs (Suc 0) = \<lparr>player_result = [(1, 1), (2, 2)], actions = [], observation = 8\<rparr>"
    by (simp add: obs_at_def counting_controller_def example_parser_def)
  have first: "late_failing_transform (?obs 0) = Inr 4"
    by (simp add: o0 late_failing_transform_def)
  have t1: "late_failing_transform (?obs (Suc 0)) = Inl (Exception ''no feature layers'')"
    by (simp add: o1 late_failing_transform_def)
  note T = start_order_and_termination
    [where self = example_parser and tr = late_failing_transform and ctl = ?ctl and c = 0
       and ?a0.0 = 4, OF init first]
  have "\<exists>n. player_result (?obs n) \<noteq> []"
    using o1 by (intro exI [of _ "Suc 0"]) simp
  with T obtain out where out: "start ?ctl late_failing_transform example_parser 0 = Some out"
    by blast
  with T obtain n where none: "fst out = None"
    and ended: "player_result (?obs n) \<noteq> []"
    and going: "\<forall>k<n. player_result (?obs k) = []"
    and ev: "run_events (snd out) =
       CtlGameInfo # concat (map (\<lambda>k. iteration_events late_failing_transform ?obs 4
          (self_step_mul example_parser)
          (if k = n then LAST else if k = 0 then FIRST else MID)
          (if k = n then 0 else self_discount example_parser) k) [0..<Suc n])"
    by blast
  have "n \<noteq> 0"
  proof
    assume "n = 0"
    with ended o0 show False by simp
  qed
  moreover have "\<not> Suc 0 < n"
  proof
    assume "Suc 0 < n"
    with going have "player_result (?obs (Suc 0)) = []" by blast
    with o1 show False by simp
  qed
  ultimately have n: "n = Suc 0" by simp
  have "run_events (snd out) =
             [CtlGameInfo,
              CtlStep 4, CtlObserve,
              TransformObs \<lparr>player_result = [], actions = [], observation = 4\<rparr>,
              AgentStep \<lparr>step_type = FIRST, reward = 0, ts_discount = 1, ts_observation = 4\<rparr> [],
              CtlStep 4, CtlObserve,
              TransformObs \<lparr>player_result = [(1, 1), (2, 2)], actions = [], observation = 8\<rparr>,
              Print ''no feature layers passing...'',
              AgentStep \<lparr>step_type = LAST, reward = 0, ts_discount = 0, ts_observation = 4\<rparr> []]"
    unfolding ev n
    using o0 o1
    by (simp add: iteration_events_def late_failing_transform_def upt_rec example_parser_def)
  moreover from out none have "start ?ctl late_failing_transform example_parser 0
      = Some (None, snd out)"
    by (cases out) simp
  ultimately show ?thesis using init first by blast
qed

text \<open>
  The step type that \<open>start_order_and_termination\<close> assumes is the one every object has
  that the constructor returns, with no game loop counted yet.
\<close>

lemma ReplayParser_init_state:
  fixes ev :: "('a, 'o, 'ao) event list"
  assumes "ReplayParser_init FLAGS env path pid sz msz d m = (ev, Inr p)"
  shows "self_state p = FIRST \<and> self_episode_steps p = 0
       \<and> self_discount p = d \<and> self_step_mul p = m"
  using assms unfolding ReplayParser_init_def Let_def
  by (auto split: sum.splits if_splits)

text \<open>
  Claim C5 (the code departs from it). The claim has every pass of the loop end with the
  agent's \<^verbatim>\<open>step\<close>, and the loop end exactly when an observation has a non-empty
  \<^verbatim>\<open>player_result\<close>. Both hold whenever the first call of \<^verbatim>\<open>transform_obs\<close> returns
  (\<open>start_order_and_termination\<close>), with the step types and discounts the claim gives. When
  that call raises they fail: on a controller whose game lasts 100 loops and a
  \<^verbatim>\<open>transform_obs\<close> that raises, \<^verbatim>\<open>start\<close> ends in its first pass with
  \<^verbatim>\<open>UnboundLocalError\<close>, after the controller's step and observe and the call of
  \<^verbatim>\<open>transform_obs\<close>, although the observation of that pass has an empty
  \<^verbatim>\<open>player_result\<close>, and the agent's \<^verbatim>\<open>step\<close> is not among the events.
\<close>

theorem start_aborted_first_pass:
  "player_result (obs_at (counting_controller 100) (self_step_mul example_parser) 0 0) = []
   \<and> self_state example_parser = FIRST
   \<and> (\<exists>r. start (counting_controller 100) failing_transform example_parser 0
             = Some (Some (UnboundLocalError
                  ''local variable 'agent_obs' referenced before assignment''), r)
         \<and> run_events r =
             [CtlGameInfo, CtlStep 4, CtlObserve,
              TransformObs \<lparr>player_result = [], actions = [], observation = 4\<rparr>,
              Print ''no feature layers passing...'']
         \<and> (\<forall>ts acts. AgentStep ts acts \<notin> set (run_events r)))"
proof -
  let ?r0 = "\<lparr>run_self = example_parser, run_ctl = 0, agent_obs = None,
              run_events = [CtlGameInfo]\<rparr>"
  have body: "fst (loop_body (counting_controller 100) failing_transform ?r0)
      = Raise (UnboundLocalError ''local variable 'agent_obs' referenced before assignment'')"
    and ev: "run_events (snd (loop_body (counting_controller 100) failing_transform ?r0)) =
             [CtlGameInfo, CtlStep 4, CtlObserve,
              TransformObs \<lparr>player_result = [], actions = [], observation = 4\<rparr>,
              Print ''no feature layers passing...'']"
    by (simp_all add: loop_body_def Let_def counting_controller_def failing_transform_def
        example_parser_def)
  have obs: "player_result
      (obs_at (counting_controller 100) (self_step_mul example_parser) 0 0) = []"
    by (simp add: obs_at_def counting_controller_def example_parser_def)
  have st: "self_state example_parser = FIRST"
    by (simp add: example_parser_def)
  from start_loop_Raise [OF body] ev have
    "\<exists>r. start (counting_controller 100) failing_transform example_parser 0
             = Some (Some (UnboundLocalError
                  ''local variable 'agent_obs' referenced before assignment''), r)
         \<and> run_events r =
             [CtlGameInfo, CtlStep 4, CtlObserve,
              TransformObs \<lparr>player_result = [], actions = [], observation = 4\<rparr>,
              Print ''no feature layers passing...'']
         \<and> (\<forall>ts acts. AgentStep ts acts \<notin> set (run_events r))"
    by (simp add: start_def)
  with obs st show ?thesis by blast
qed

end
